theory Spec2Isabelle
  imports Main "HOL-Library.Word"
begin

unbundle bit_operations_syntax

section \<open>ln-paywall: the lnd client of package ln\<close>

text \<open>
  The development embeds \<^verbatim>\<open>src/ln/lnd.go\<close>: the options record with its defaults, the
  client struct and its two methods \<^verbatim>\<open>GenerateInvoice\<close> and \<^verbatim>\<open>CheckInvoice\<close>.
  The methods call into three packages of the Go standard library (encoding/base64,
  encoding/hex, crypto/sha256) and into the gRPC client of lnd. The three library
  functions are pure and standardised (RFC 4648, FIPS 180-4), so they are written out
  below; the gRPC client is an interface value, so it is a record of functions over the
  state of the remote node, whatever that node is.
\<close>

type_synonym byte = "8 word"
type_synonym uint32 = "32 word"
type_synonym int64 = "64 word"

text \<open>A Go string is a sequence of bytes, as \<^typ>\<open>string\<close> is.\<close>

subsection \<open>Go errors\<close>

text \<open>
  A value of the interface type \<^verbatim>\<open>error\<close> carries its dynamic type. Two dynamic types
  appear here: \<^verbatim>\<open>base64.CorruptInputError\<close> (an integer, the offset of the offending
  input byte) and the status error of gRPC (a code and a description), which is what
  the generated lnrpc client returns. The client is an interface value, though, and its
  methods are typed to return any \<^verbatim>\<open>error\<close>. \<^verbatim>\<open>nil\<close> is \<open>None\<close> of \<open>error option\<close>.
\<close>

datatype status = Status (Code: uint32) (Desc: string)

datatype error = CorruptInputError int | StatusError status

subsection \<open>encoding/base64, the standard padded encoding\<close>

definition encodeStd :: string where
  "encodeStd = ''ABCDEFGHIJKLMNOPQRSTUVWXYZabcdefghijklmnopqrstuvwxyz0123456789+/''"

fun index_of :: "'a \<Rightarrow> 'a list \<Rightarrow> nat \<Rightarrow> nat option" where
  "index_of x [] i = None"
| "index_of x (y # ys) i = (if x = y then Some i else index_of x ys (Suc i))"

text \<open>The decode table: the position in the alphabet, and \<open>0xFF\<close> for every other byte.\<close>

definition decodeMap :: "char \<Rightarrow> byte" where
  "decodeMap ch = (case index_of ch encodeStd 0 of None \<Rightarrow> 0xFF | Some i \<Rightarrow> word_of_nat i)"

definition is_newline :: "char \<Rightarrow> bool" where
  "is_newline ch \<longleftrightarrow> ch = CHR 0x0A \<or> ch = CHR 0x0D"

fun skip_newlines :: "string \<Rightarrow> int \<Rightarrow> string \<times> int" where
  "skip_newlines [] si = ([], si)"
| "skip_newlines (ch # src) si =
     (if is_newline ch then skip_newlines src (si + 1) else (ch # src, si))"

text \<open>Four 6-bit values (missing ones are zero) give three bytes.\<close>

definition quantum :: "byte list \<Rightarrow> byte list" where
  "quantum dbuf =
     (let d = dbuf @ replicate (4 - length dbuf) 0;
          val = push_bit 18 (ucast (d ! 0)) OR push_bit 12 (ucast (d ! 1))
                OR push_bit 6 (ucast (d ! 2)) OR (ucast (d ! 3) :: uint32)
      in [ucast (drop_bit 16 val), ucast (drop_bit 8 val), ucast val])"

text \<open>
  After the first \<open>=\<close> of a group that holds two values, a second \<open>=\<close> must follow
  (new lines between them are skipped). \<open>si\<close> is the index of the next input byte.
\<close>

definition second_pad :: "string \<Rightarrow> int \<Rightarrow> error + string \<times> int" where
  "second_pad src si =
     (case skip_newlines src si of
        ([], si') \<Rightarrow> Inl (CorruptInputError si')
      | (ch # rest, si') \<Rightarrow>
          if ch \<noteq> CHR ''='' then Inl (CorruptInputError (si' - 1)) else Inr (rest, si' + 1))"

text \<open>
  The padding character was read with \<open>dbuf\<close> holding the values of the group so far.
  Padding ends the input: anything but new lines after it is trailing garbage.
\<close>

definition decode_padding :: "byte list \<Rightarrow> string \<Rightarrow> int \<Rightarrow> byte list \<Rightarrow> error + byte list" where
  "decode_padding dbuf src si dst =
     (let j = length dbuf in
      if j < 2 then Inl (CorruptInputError (si - 1))
      else case (if j = 2 then second_pad src si else Inr (src, si)) of
             Inl e \<Rightarrow> Inl e
           | Inr (src1, si1) \<Rightarrow>
               (case skip_newlines src1 si1 of
                  ([], si2) \<Rightarrow> Inr (dst @ take (j - 1) (quantum dbuf))
                | (ch # rest, si2) \<Rightarrow> Inl (CorruptInputError si2)))"

text \<open>
  The decoding loop: \<open>si\<close> counts the input bytes consumed, \<open>dbuf\<close> collects the values
  of the current group of four, \<open>dst\<close> the bytes decoded so far. New lines are ignored
  everywhere; input that ends inside a group is corrupt, since the encoding is padded.
\<close>

fun decode :: "string \<Rightarrow> int \<Rightarrow> byte list \<Rightarrow> byte list \<Rightarrow> error + byte list" where
  "decode [] si dbuf dst =
     (if dbuf = [] then Inr dst else Inl (CorruptInputError (si - int (length dbuf))))"
| "decode (ch # src) si dbuf dst =
     (let out = decodeMap ch in
      if out \<noteq> 0xFF then
        (if length dbuf = 3 then decode src (si + 1) [] (dst @ quantum (dbuf @ [out]))
         else decode src (si + 1) (dbuf @ [out]) dst)
      else if is_newline ch then decode src (si + 1) dbuf dst
      else if ch = CHR ''='' then decode_padding dbuf src (si + 1) dst
      else Inl (CorruptInputError si))"

text \<open>
  \<^verbatim>\<open>base64.StdEncoding.DecodeString\<close>. Go returns the bytes decoded before the error
  together with the error; the only caller here drops them, so the error stands alone.
  The offset inside the error plays no part in any property below.
\<close>

definition base64_DecodeString :: "string \<Rightarrow> error + byte list" where
  "base64_DecodeString s = decode s 0 [] []"

fun encode :: "byte list \<Rightarrow> string" where
  "encode (b0 # b1 # b2 # src) =
     (let val = push_bit 16 (ucast b0) OR push_bit 8 (ucast b1) OR (ucast b2 :: uint32)
      in [encodeStd ! unat (drop_bit 18 val AND 0x3F), encodeStd ! unat (drop_bit 12 val AND 0x3F),
          encodeStd ! unat (drop_bit 6 val AND 0x3F), encodeStd ! unat (val AND 0x3F)]
         @ encode src)"
| "encode [b0, b1] =
     (let val = push_bit 16 (ucast b0) OR (push_bit 8 (ucast b1) :: uint32)
      in [encodeStd ! unat (drop_bit 18 val AND 0x3F), encodeStd ! unat (drop_bit 12 val AND 0x3F),
          encodeStd ! unat (drop_bit 6 val AND 0x3F), CHR ''=''])"
| "encode [b0] =
     (let val = (push_bit 16 (ucast b0) :: uint32)
      in [encodeStd ! unat (drop_bit 18 val AND 0x3F), encodeStd ! unat (drop_bit 12 val AND 0x3F),
          CHR ''='', CHR ''=''])"
| "encode [] = []"

definition base64_EncodeToString :: "byte list \<Rightarrow> string" where
  "base64_EncodeToString src = encode src"

subsection \<open>encoding/hex\<close>

definition hextable :: string where
  "hextable = ''0123456789abcdef''"

definition hex_EncodeToString :: "byte list \<Rightarrow> string" where
  "hex_EncodeToString src =
     concat (map (\<lambda>v. [hextable ! unat (drop_bit 4 v), hextable ! unat (v AND 0x0F)]) src)"

subsection \<open>crypto/sha256\<close>

definition K256 :: "uint32 list" where
  "K256 =
    [0x428A2F98, 0x71374491, 0xB5C0FBCF, 0xE9B5DBA5, 0x3956C25B, 0x59F111F1, 0x923F82A4, 0xAB1C5ED5,
     0xD807AA98, 0x12835B01, 0x243185BE, 0x550C7DC3, 0x72BE5D74, 0x80DEB1FE, 0x9BDC06A7, 0xC19BF174,
     0xE49B69C1, 0xEFBE4786, 0x0FC19DC6, 0x240CA1CC, 0x2DE92C6F, 0x4A7484AA, 0x5CB0A9DC, 0x76F988DA,
     0x983E5152, 0xA831C66D, 0xB00327C8, 0xBF597FC7, 0xC6E00BF3, 0xD5A79147, 0x06CA6351, 0x14292967,
     0x27B70A85, 0x2E1B2138, 0x4D2C6DFC, 0x53380D13, 0x650A7354, 0x766A0ABB, 0x81C2C92E, 0x92722C85,
     0xA2BFE8A1, 0xA81A664B, 0xC24B8B70, 0xC76C51A3, 0xD192E819, 0xD6990624, 0xF40E3585, 0x106AA070,
     0x19A4C116, 0x1E376C08, 0x2748774C, 0x34B0BCB5, 0x391C0CB3, 0x4ED8AA4A, 0x5B9CCA4F, 0x682E6FF3,
     0x748F82EE, 0x78A5636F, 0x84C87814, 0x8CC70208, 0x90BEFFFA, 0xA4506CEB, 0xBEF9A3F7, 0xC67178F2]"

type_synonym digest_state =
  "uint32 \<times> uint32 \<times> uint32 \<times> uint32 \<times> uint32 \<times> uint32 \<times> uint32 \<times> uint32"

definition init256 :: digest_state where
  "init256 = (0x6A09E667, 0xBB67AE85, 0x3C6EF372, 0xA54FF53A,
              0x510E527F, 0x9B05688C, 0x1F83D9AB, 0x5BE0CD19)"

definition rotr :: "nat \<Rightarrow> uint32 \<Rightarrow> uint32" where
  "rotr n x = drop_bit n x OR push_bit (32 - n) x"

definition be_uint32 :: "byte list \<Rightarrow> uint32" where
  "be_uint32 bs = foldl (\<lambda>acc b. push_bit 8 acc OR ucast b) 0 (take 4 bs)"

definition be_bytes32 :: "uint32 \<Rightarrow> byte list" where
  "be_bytes32 w = [ucast (drop_bit 24 w), ucast (drop_bit 16 w), ucast (drop_bit 8 w), ucast w]"

definition be_bytes64 :: "64 word \<Rightarrow> byte list" where
  "be_bytes64 w = map (\<lambda>i. ucast (drop_bit (8 * i) w)) [7, 6, 5, 4, 3, 2, 1, 0]"

function chunks :: "nat \<Rightarrow> 'a list \<Rightarrow> 'a list list" where
  "chunks n xs = (if n = 0 \<or> xs = [] then [] else take n xs # chunks n (drop n xs))"
  by pat_completeness auto
termination
  by (relation "measure (\<lambda>(n, xs). length xs)") auto

declare chunks.simps [simp del]

text \<open>The message schedule: sixteen words of the block, extended by \<open>n\<close> more.\<close>

fun schedule :: "nat \<Rightarrow> uint32 list \<Rightarrow> uint32 list" where
  "schedule 0 w = w"
| "schedule (Suc n) w =
     (let i = length w;
          v1 = w ! (i - 2);
          t1 = rotr 17 v1 XOR rotr 19 v1 XOR drop_bit 10 v1;
          v2 = w ! (i - 15);
          t2 = rotr 7 v2 XOR rotr 18 v2 XOR drop_bit 3 v2
      in schedule n (w @ [t1 + w ! (i - 7) + t2 + w ! (i - 16)]))"

fun round256 :: "digest_state \<Rightarrow> uint32 \<times> uint32 \<Rightarrow> digest_state" where
  "round256 (a, b, c, d, e, f, g, h) (k, w) =
     (let t1 = h + (rotr 6 e XOR rotr 11 e XOR rotr 25 e) + ((e AND f) XOR (NOT e AND g)) + k + w;
          t2 = (rotr 2 a XOR rotr 13 a XOR rotr 22 a) + ((a AND b) XOR (a AND c) XOR (b AND c))
      in (t1 + t2, a, b, c, d + t1, e, f, g))"

fun add_state :: "digest_state \<Rightarrow> digest_state \<Rightarrow> digest_state" where
  "add_state (a, b, c, d, e, f, g, h) (a', b', c', d', e', f', g', h') =
     (a + a', b + b', c + c', d + d', e + e', f + f', g + g', h + h')"

definition block256 :: "digest_state \<Rightarrow> byte list \<Rightarrow> digest_state" where
  "block256 hs p =
     (let w = schedule 48 (map be_uint32 (chunks 4 p))
      in add_state hs (foldl round256 hs (zip K256 w)))"

text \<open>
  Padding: the byte \<open>0x80\<close>, zero bytes up to 56 modulo 64, and the length of the
  message in bits as a 64-bit big-endian integer.
\<close>

definition pad256 :: "byte list \<Rightarrow> byte list" where
  "pad256 m = m @ [0x80] @ replicate ((119 - length m mod 64) mod 64) 0
                @ be_bytes64 (push_bit 3 (word_of_nat (length m)))"

fun digest_bytes :: "digest_state \<Rightarrow> byte list" where
  "digest_bytes (a, b, c, d, e, f, g, h) = concat (map be_bytes32 [a, b, c, d, e, f, g, h])"

text \<open>\<^verbatim>\<open>sha256.Sum256\<close>; its Go result type is the array \<^verbatim>\<open>[32]byte\<close>.\<close>

definition sha256_Sum256 :: "byte list \<Rightarrow> byte list" where
  "sha256_Sum256 data = digest_bytes (foldl block256 init256 (chunks 64 (pad256 data)))"

subsection \<open>The messages and the client of lnrpc\<close>

text \<open>
  Of the protobuf messages, the fields that \<^verbatim>\<open>lnd.go\<close> sets or reads; every other field
  keeps its zero value throughout. The getters \<^verbatim>\<open>GetPaymentRequest\<close> and \<^verbatim>\<open>GetSettled\<close>
  read the field of the response of a call that returned no error.
\<close>

record Invoice =
  Memo :: string
  Value :: int64
  Settled :: bool

record AddInvoiceResponse =
  PaymentRequest :: string

record PaymentHash =
  RHashStr :: string
  RHash :: "byte list"

text \<open>
  The context carries the outgoing metadata (the macaroon); the connection is a pointer.
\<close>

type_synonym Context = "(string \<times> string) list"
type_synonym ClientConn = nat

text \<open>
  \<^verbatim>\<open>lnrpc.LightningClient\<close>, the two methods used: a call runs on the remote node, whose
  state \<open>'n\<close> it may change, and returns an error or the response.
\<close>

record 'n LightningClient =
  AddInvoice :: "Context \<Rightarrow> Invoice \<Rightarrow> 'n \<Rightarrow> (error + AddInvoiceResponse) \<times> 'n"
  LookupInvoice :: "Context \<Rightarrow> PaymentHash \<Rightarrow> 'n \<Rightarrow> (error + Invoice) \<times> 'n"

subsection \<open>LNDclient and its methods\<close>

record 'n LNDclient =
  lndClient :: "'n LightningClient"
  ctx :: Context
  conn :: ClientConn

text \<open>
  What a method can touch: the client struct it is called on, the remote node behind
  the connection, the output of package log (the formatted messages, without the time
  stamp the logger puts in front), and the record of the calls made on \<^verbatim>\<open>lndClient\<close>,
  kept so that "a call was made" can be stated.
\<close>

datatype rpc = AddInvoiceCall Context Invoice | LookupInvoiceCall Context PaymentHash

record 'n state =
  self :: "'n LNDclient"
  node :: 'n
  rpcs :: "rpc list"
  logged :: "string list"

definition log_Println :: "string \<Rightarrow> 'n state \<Rightarrow> 'n state" where
  "log_Println v s = s\<lparr>logged := logged s @ [v @ [CHR 0x0A]]\<rparr>"

definition log_Printf :: "string \<Rightarrow> 'n state \<Rightarrow> 'n state" where
  "log_Printf formatted s = s\<lparr>logged := logged s @ [formatted]\<rparr>"

definition invoke_AddInvoice ::
  "'n LightningClient \<Rightarrow> Context \<Rightarrow> Invoice \<Rightarrow> 'n state \<Rightarrow> (error + AddInvoiceResponse) \<times> 'n state"
where
  "invoke_AddInvoice cl cx req s =
     (case AddInvoice cl cx req (node s) of
        (res, n') \<Rightarrow> (res, s\<lparr>node := n', rpcs := rpcs s @ [AddInvoiceCall cx req]\<rparr>))"

definition invoke_LookupInvoice ::
  "'n LightningClient \<Rightarrow> Context \<Rightarrow> PaymentHash \<Rightarrow> 'n state \<Rightarrow> (error + Invoice) \<times> 'n state"
where
  "invoke_LookupInvoice cl cx ph s =
     (case LookupInvoice cl cx ph (node s) of
        (res, n') \<Rightarrow> (res, s\<lparr>node := n', rpcs := rpcs s @ [LookupInvoiceCall cx ph]\<rparr>))"

definition GenerateInvoice :: "int64 \<Rightarrow> string \<Rightarrow> 'n state \<Rightarrow> (string \<times> error option) \<times> 'n state" where
  "GenerateInvoice amount memo s =
     (let invoice = \<lparr>Memo = memo, Value = amount, Settled = False\<rparr>;
          s1 = log_Println ''Creating invoice for a new API request'' s
      in case invoke_AddInvoice (lndClient (self s1)) (ctx (self s1)) invoice s1 of
           (Inl err, s2) \<Rightarrow> (('''', Some err), s2)
         | (Inr res, s2) \<Rightarrow> ((PaymentRequest res, None), s2))"

definition CheckInvoice :: "string \<Rightarrow> 'n state \<Rightarrow> (bool \<times> error option) \<times> 'n state" where
  "CheckInvoice preimage s =
     (case base64_DecodeString preimage of
        Inl err \<Rightarrow> ((False, Some err), s)
      | Inr decodedPreimage \<Rightarrow>
          (let hash = sha256_Sum256 decodedPreimage;
               hashSlice = hash;
               paymentHash = \<lparr>RHashStr = hex_EncodeToString hashSlice, RHash = hashSlice\<rparr>;
               encodedHash = base64_EncodeToString hashSlice;
               s1 = log_Printf (''Checking invoice for hash '' @ encodedHash @ [CHR 0x0A]) s
           in case invoke_LookupInvoice (lndClient (self s1)) (ctx (self s1)) paymentHash s1 of
                (Inl err, s2) \<Rightarrow> ((False, Some err), s2)
              | (Inr invoice, s2) \<Rightarrow>
                  if \<not> Settled invoice then ((False, None), s2) else ((True, None), s2)))"

subsection \<open>LNDoptions\<close>

record LNDoptions =
  Address :: string
  CertFile :: string
  MacaroonFile :: string

definition DefaultLNDoptions :: LNDoptions where
  "DefaultLNDoptions =
     \<lparr>Address = ''localhost:10009'', CertFile = ''tls.cert'', MacaroonFile = ''invoice.macaroon''\<rparr>"

definition assignDefaultValues :: "LNDoptions \<Rightarrow> LNDoptions" where
  "assignDefaultValues lndOptions =
     (let o1 = (if Address lndOptions = '''' then lndOptions\<lparr>Address := Address DefaultLNDoptions\<rparr>
                else lndOptions);
          o2 = (if CertFile o1 = '''' then o1\<lparr>CertFile := CertFile DefaultLNDoptions\<rparr> else o1);
          o3 = (if MacaroonFile o2 = '''' then o2\<lparr>MacaroonFile := MacaroonFile DefaultLNDoptions\<rparr>
                else o2)
      in o3)"

subsection \<open>A small node for concrete runs\<close>

text \<open>
  A stand-in for the remote node, used where a property is run on concrete values.
  It is reachable or not; it keeps its invoices by payment hash; \<open>upcoming\<close> lists the
  payment hash and payment request of the invoices it will create next (lnd draws the
  preimage at random). It accepts every amount. The client built on it reports its two
  kinds of failure with the errors it is given.
\<close>

record sim_node =
  reachable :: bool
  invoices :: "(byte list \<times> Invoice) list"
  upcoming :: "(byte list \<times> string) list"

definition sim_AddInvoice ::
  "error \<Rightarrow> Context \<Rightarrow> Invoice \<Rightarrow> sim_node \<Rightarrow> (error + AddInvoiceResponse) \<times> sim_node"
where
  "sim_AddInvoice unreachable cx req n =
     (if \<not> reachable n then (Inl unreachable, n)
      else case upcoming n of
             [] \<Rightarrow> (Inl (StatusError (Status 8 ''no invoice left'')), n)
           | (h, payreq) # rest \<Rightarrow>
               (Inr \<lparr>PaymentRequest = payreq\<rparr>,
                n\<lparr>invoices := invoices n @ [(h, req)], upcoming := rest\<rparr>))"

definition sim_LookupInvoice ::
  "error \<Rightarrow> error \<Rightarrow> Context \<Rightarrow> PaymentHash \<Rightarrow> sim_node \<Rightarrow> (error + Invoice) \<times> sim_node"
where
  "sim_LookupInvoice unreachable notfound cx ph n =
     (if \<not> reachable n then (Inl unreachable, n)
      else case map_of (invoices n) (RHash ph) of
             None \<Rightarrow> (Inl notfound, n)
           | Some found \<Rightarrow> (Inr found, n))"

definition sim_client :: "error \<Rightarrow> error \<Rightarrow> sim_node LightningClient" where
  "sim_client unreachable notfound =
     \<lparr>AddInvoice = sim_AddInvoice unreachable,
      LookupInvoice = sim_LookupInvoice unreachable notfound\<rparr>"

text \<open>The statuses of a gRPC client: code 14 is Unavailable, code 2 is Unknown.\<close>

definition grpc_client :: "sim_node LightningClient" where
  "grpc_client =
     sim_client (StatusError (Status 14 ''transport is closing''))
       (StatusError (Status 2 ''unable to locate invoice''))"

text \<open>
  A client that answers every \<open>AddInvoice\<close> with the same payment request and leaves the
  node as it is, as a caching proxy or a test double would.
\<close>

definition stale_client :: "sim_node LightningClient" where
  "stale_client =
     \<lparr>AddInvoice = (\<lambda>cx req n. (Inr \<lparr>PaymentRequest = ''lnbc1''\<rparr>, n)),
      LookupInvoice = LookupInvoice grpc_client\<rparr>"

definition sim_state :: "sim_node LightningClient \<Rightarrow> sim_node \<Rightarrow> sim_node state" where
  "sim_state cl n =
     \<lparr>self = \<lparr>lndClient = cl, ctx = [(''macaroon'', ''0201036C6E64'')], conn = 1\<rparr>,
      node = n, rpcs = [], logged = []\<rparr>"

text \<open>
  The SHA-256 digest of three zero bytes, the payment hash of the preimage \<open>AAAA\<close>,
  and a node that is up or down and holds one invoice under that hash, settled or not.
\<close>

definition zero_secret_hash :: "byte list" where
  "zero_secret_hash =
     [0x70, 0x9E, 0x80, 0xC8, 0x84, 0x87, 0xA2, 0x41, 0x1E, 0x1E, 0xE4, 0xDF, 0xB9, 0xF2, 0x2A, 0x86,
      0x14, 0x92, 0xD2, 0x0C, 0x47, 0x65, 0x15, 0x0C, 0x0C, 0x79, 0x4A, 0xBD, 0x70, 0xF8, 0x14, 0x7C]"

definition sim_node_with :: "bool \<Rightarrow> bool \<Rightarrow> sim_node" where
  "sim_node_with up settled =
     \<lparr>reachable = up,
      invoices = [(zero_secret_hash, \<lparr>Memo = ''api-call'', Value = 100, Settled = settled\<rparr>)],
      upcoming = [([0x01], ''lnbc1''), ([0x02], ''lnbc2'')]\<rparr>"

subsection \<open>The authorization decision procedure\<close>

text \<open>
  Modelled from the spec: the authorization decision procedure of section 4.3 and the
  two capabilities it orchestrates (sections 4.1 and 4.2). The middleware that
  implements it is not among the source files; the changelog records the order of its
  checks. The capabilities are any implementations of their contracts, over a verifier
  state \<open>'v\<close> and a storage state \<open>'k\<close>; \<open>contacts\<close> lists the capability calls made.
  The replay key is the Payment Hash of the proof.
\<close>

datatype verification_error = ProofMalformed | ChargeNotFound | VerificationUnavailable | InvalidAmount

datatype storage_error = StorageUnavailable

datatype reason = MalformedProof | AlreadyUsed | UnknownCharge | NotSettled

datatype outcome = ChallengeRequired string | Rejected reason | ServiceError | Authorized

record 'v verification =
  IssueCharge :: "int \<Rightarrow> string \<Rightarrow> 'v \<Rightarrow> (verification_error + string) \<times> 'v"
  IsSettled :: "string \<Rightarrow> 'v \<Rightarrow> (verification_error + bool) \<times> 'v"

record 'k storage =
  WasUsed :: "byte list \<Rightarrow> 'k \<Rightarrow> storage_error + bool"
  MarkUsed :: "byte list \<Rightarrow> 'k \<Rightarrow> storage_error + 'k"

datatype contact =
  IssueChargeCall int string | WasUsedCall "byte list" | IsSettledCall string | MarkUsedCall "byte list"

record ('v, 'k) capabilities =
  verifier :: 'v
  store :: 'k
  contacts :: "contact list"

text \<open>
  Modelled from the spec: step 2 of section 4.3, "decode and derive key", with the
  Payment Hash of section 3 as the key. The middleware that does it is not in the sources.
\<close>

definition derive_key :: "string \<Rightarrow> byte list option" where
  "derive_key token =
     (case base64_DecodeString token of Inl _ \<Rightarrow> None | Inr secret \<Rightarrow> Some (sha256_Sum256 secret))"

text \<open>
  Modelled from the spec: steps 4 and 5 of section 4.3, the settlement check and the
  commit, as the missing middleware is specified to perform them.
\<close>

definition settlement_check ::
  "'v verification \<Rightarrow> 'k storage \<Rightarrow> string \<Rightarrow> byte list \<Rightarrow> ('v, 'k) capabilities
     \<Rightarrow> outcome \<times> ('v, 'k) capabilities"
where
  "settlement_check V S token key w =
     (case IsSettled V token (verifier w) of
        (r, v') \<Rightarrow>
          (let w1 = w\<lparr>verifier := v', contacts := contacts w @ [IsSettledCall token]\<rparr> in
           case r of
             Inl ProofMalformed \<Rightarrow> (Rejected MalformedProof, w1)
           | Inl ChargeNotFound \<Rightarrow> (Rejected UnknownCharge, w1)
           | Inl _ \<Rightarrow> (ServiceError, w1)
           | Inr False \<Rightarrow> (Rejected NotSettled, w1)
           | Inr True \<Rightarrow>
               (let w2 = w1\<lparr>contacts := contacts w1 @ [MarkUsedCall key]\<rparr> in
                case MarkUsed S key (store w1) of
                  Inl _ \<Rightarrow> (ServiceError, w2)
                | Inr k' \<Rightarrow> (Authorized, w2\<lparr>store := k'\<rparr>))))"

text \<open>
  Modelled from the spec: the state machine of section 4.3 for one request, steps 1 to 3
  and then \<open>settlement_check\<close>; the middleware itself is not in the sources.
\<close>

definition authorize ::
  "'v verification \<Rightarrow> 'k storage \<Rightarrow> int \<Rightarrow> string \<Rightarrow> string option \<Rightarrow> ('v, 'k) capabilities
     \<Rightarrow> outcome \<times> ('v, 'k) capabilities"
where
  "authorize V S amount memo presented w =
     (case presented of
        None \<Rightarrow>
          (case IssueCharge V amount memo (verifier w) of
             (r, v') \<Rightarrow>
               (let w1 = w\<lparr>verifier := v', contacts := contacts w @ [IssueChargeCall amount memo]\<rparr> in
                case r of Inl _ \<Rightarrow> (ServiceError, w1)
                        | Inr request \<Rightarrow> (ChallengeRequired request, w1)))
      | Some token \<Rightarrow>
          (case derive_key token of
             None \<Rightarrow> (Rejected MalformedProof, w)
           | Some key \<Rightarrow>
               (let w1 = w\<lparr>contacts := contacts w @ [WasUsedCall key]\<rparr> in
                case WasUsed S key (store w) of
                  Inl _ \<Rightarrow> (ServiceError, w1)
                | Inr True \<Rightarrow> (Rejected AlreadyUsed, w1)
                | Inr False \<Rightarrow> settlement_check V S token key w1)))"

text \<open>A storage that keeps the used keys in a list, and a verifier that knows one charge.\<close>

definition list_storage :: "byte list list storage" where
  "list_storage =
     \<lparr>WasUsed = (\<lambda>key used. Inr (key \<in> set used)),
      MarkUsed = (\<lambda>key used. Inr (key # used))\<rparr>"

definition one_charge_verifier :: "string \<Rightarrow> bool verification" where
  "one_charge_verifier known =
     \<lparr>IssueCharge = (\<lambda>amount memo settled.
        (if amount \<le> 0 then Inl InvalidAmount else Inr ''lnbc1'', settled)),
      IsSettled = (\<lambda>token settled.
        (if token = known then Inr settled else Inl ChargeNotFound, settled))\<rparr>"

section \<open>The library functions\<close>





text \<open>
  The digest has 32 bytes, its hexadecimal form 64 characters.
\<close>

lemma length_be_bytes32: "length (be_bytes32 w) = 4"
  by (simp add: be_bytes32_def)

lemma length_digest_bytes: "length (digest_bytes hs) = 32"
  by (cases hs rule: digest_bytes.cases) (simp add: length_be_bytes32)

lemma length_Sum256: "length (sha256_Sum256 m) = 32"
  by (simp add: sha256_Sum256_def length_digest_bytes)

lemma length_hex_EncodeToString: "length (hex_EncodeToString bs) = 2 * length bs"
  by (induction bs) (simp_all add: hex_EncodeToString_def)

text \<open>
  Concrete runs: a preimage that decodes, one that does not, and a digest.
\<close>

lemma decode_AAAA: "base64_DecodeString ''AAAA'' = Inr [0, 0, 0]"
  by (simp add: base64_DecodeString_def decodeMap_def encodeStd_def quantum_def)

lemma decode_bangs: "base64_DecodeString ''!!!!'' = Inl (CorruptInputError 0)"
  by (simp add: base64_DecodeString_def decodeMap_def encodeStd_def is_newline_def)

lemma sha256_of_three_zero_bytes: "sha256_Sum256 [0, 0, 0] = zero_secret_hash"
  by code_simp

lemma hex_zero_secret_hash:
  "hex_EncodeToString zero_secret_hash =
     ''709e80c88487a2411e1ee4dfb9f22a861492d20c4765150c0c794abd70f8147c''"
  by (simp add: hex_EncodeToString_def zero_secret_hash_def hextable_def)

lemmas sim_defs = sim_state_def grpc_client_def stale_client_def sim_client_def
  sim_LookupInvoice_def sim_AddInvoice_def sim_node_with_def

section \<open>The two methods, step by step\<close>

text \<open>
  Both methods make one call on the client at most. Once the preimage has decoded,
  \<open>CheckInvoice\<close> logs the hash, looks the invoice up and answers from the response;
  \<open>GenerateInvoice\<close> logs, adds the invoice and answers from the response.
\<close>

lemma CheckInvoice_decoded:
  assumes "base64_DecodeString preimage = Inr decoded"
  shows "CheckInvoice preimage s =
    (let ph = \<lparr>RHashStr = hex_EncodeToString (sha256_Sum256 decoded), RHash = sha256_Sum256 decoded\<rparr>;
         s1 = s\<lparr>logged := logged s @ [''Checking invoice for hash ''
                 @ base64_EncodeToString (sha256_Sum256 decoded) @ [CHR 0x0A]]\<rparr>
     in case LookupInvoice (lndClient (self s)) (ctx (self s)) ph (node s) of
          (Inl err, n') \<Rightarrow> ((False, Some err),
              s1\<lparr>node := n', rpcs := rpcs s @ [LookupInvoiceCall (ctx (self s)) ph]\<rparr>)
        | (Inr found, n') \<Rightarrow> ((Settled found, None),
              s1\<lparr>node := n', rpcs := rpcs s @ [LookupInvoiceCall (ctx (self s)) ph]\<rparr>))"
  using assms
  by (simp add: CheckInvoice_def Let_def log_Printf_def invoke_LookupInvoice_def
      split: prod.splits sum.splits)

lemma GenerateInvoice_unfolded:
  "GenerateInvoice amount memo s =
    (let req = \<lparr>Memo = memo, Value = amount, Settled = False\<rparr>;
         s1 = s\<lparr>logged := logged s @ [''Creating invoice for a new API request'' @ [CHR 0x0A]]\<rparr>
     in case AddInvoice (lndClient (self s)) (ctx (self s)) req (node s) of
          (Inl err, n') \<Rightarrow> (('''', Some err),
              s1\<lparr>node := n', rpcs := rpcs s @ [AddInvoiceCall (ctx (self s)) req]\<rparr>)
        | (Inr res, n') \<Rightarrow> ((PaymentRequest res, None),
              s1\<lparr>node := n', rpcs := rpcs s @ [AddInvoiceCall (ctx (self s)) req]\<rparr>))"
  by (simp add: GenerateInvoice_def Let_def log_Println_def invoke_AddInvoice_def
      split: prod.splits sum.splits)

section \<open>Properties\<close>

text \<open>
  C1: when the preimage decodes and the invoice looked up under its hash exists but is
  not settled, \<open>CheckInvoice\<close> returns \<open>false\<close> and a nil error.
\<close>

theorem CheckInvoice_unsettled_is_false_without_error:
  assumes "base64_DecodeString preimage = Inr decoded"
    and "LookupInvoice (lndClient (self s)) (ctx (self s))
           \<lparr>RHashStr = hex_EncodeToString (sha256_Sum256 decoded), RHash = sha256_Sum256 decoded\<rparr>
           (node s) = (Inr found, n')"
    and "\<not> Settled found"
  shows "fst (CheckInvoice preimage s) = (False, None)"
  using assms by (simp add: CheckInvoice_decoded Let_def)

theorem CheckInvoice_unsettled_is_false_without_error_witness:
  "base64_DecodeString ''AAAA'' = Inr [0, 0, 0]
   \<and> LookupInvoice grpc_client [(''macaroon'', ''0201036C6E64'')]
        \<lparr>RHashStr = hex_EncodeToString (sha256_Sum256 [0, 0, 0]), RHash = sha256_Sum256 [0, 0, 0]\<rparr>
        (sim_node_with True False)
      = (Inr \<lparr>Memo = ''api-call'', Value = 100, Settled = False\<rparr>, sim_node_with True False)
   \<and> fst (CheckInvoice ''AAAA'' (sim_state grpc_client (sim_node_with True False))) = (False, None)"
proof -
  have look: "LookupInvoice (lndClient (self (sim_state grpc_client (sim_node_with True False))))
        (ctx (self (sim_state grpc_client (sim_node_with True False))))
        \<lparr>RHashStr = hex_EncodeToString (sha256_Sum256 [0, 0, 0]), RHash = sha256_Sum256 [0, 0, 0]\<rparr>
        (node (sim_state grpc_client (sim_node_with True False)))
      = (Inr \<lparr>Memo = ''api-call'', Value = 100, Settled = False\<rparr>, sim_node_with True False)"
    by (simp add: sim_defs sha256_of_three_zero_bytes)
  have "fst (CheckInvoice ''AAAA'' (sim_state grpc_client (sim_node_with True False))) = (False, None)"
    using CheckInvoice_unsettled_is_false_without_error [OF decode_AAAA look] by simp
  moreover have "LookupInvoice grpc_client [(''macaroon'', ''0201036C6E64'')]
        \<lparr>RHashStr = hex_EncodeToString (sha256_Sum256 [0, 0, 0]), RHash = sha256_Sum256 [0, 0, 0]\<rparr>
        (sim_node_with True False)
      = (Inr \<lparr>Memo = ''api-call'', Value = 100, Settled = False\<rparr>, sim_node_with True False)"
    using look by (simp add: sim_state_def)
  ultimately show ?thesis using decode_AAAA by simp
qed




text \<open>
  C3: when the preimage decodes, the one call made is the lookup of the SHA-256 digest
  of the decoded bytes, as raw bytes and in hexadecimal. The digest has 32 bytes and
  depends on the preimage alone, not on the state the call is made in.
\<close>

theorem CheckInvoice_looks_up_sha256_of_decoded_preimage:
  assumes "base64_DecodeString preimage = Inr decoded"
  shows "rpcs (snd (CheckInvoice preimage s)) =
           rpcs s @ [LookupInvoiceCall (ctx (self s))
             \<lparr>RHashStr = hex_EncodeToString (sha256_Sum256 decoded),
              RHash = sha256_Sum256 decoded\<rparr>]
       \<and> length (sha256_Sum256 decoded) = 32
       \<and> length (hex_EncodeToString (sha256_Sum256 decoded)) = 64"
  using assms
  by (simp add: CheckInvoice_decoded Let_def length_Sum256 length_hex_EncodeToString
      split: prod.splits sum.splits)

theorem CheckInvoice_looks_up_sha256_of_decoded_preimage_witness:
  "base64_DecodeString ''AAAA'' = Inr [0, 0, 0]
   \<and> rpcs (snd (CheckInvoice ''AAAA'' (sim_state grpc_client (sim_node_with True False)))) =
       [LookupInvoiceCall [(''macaroon'', ''0201036C6E64'')]
         \<lparr>RHashStr = ''709e80c88487a2411e1ee4dfb9f22a861492d20c4765150c0c794abd70f8147c'',
          RHash = zero_secret_hash\<rparr>]
   \<and> length zero_secret_hash = 32"
  using CheckInvoice_looks_up_sha256_of_decoded_preimage
    [OF decode_AAAA, of "sim_state grpc_client (sim_node_with True False)"] decode_AAAA
  by (simp add: sha256_of_three_zero_bytes hex_zero_secret_hash sim_state_def)

text \<open>
  C4, as claimed: an amount of zero or less fails with InvalidAmount before any charge is
  created. It does not: with amount 0 the call reaches the node, the node creates the
  invoice, and the payment request comes back with a nil error.
\<close>

theorem GenerateInvoice_zero_amount_counterexample:
  "sint (0 :: int64) \<le> 0
   \<and> fst (GenerateInvoice 0 ''api-call'' (sim_state grpc_client (sim_node_with True False)))
       = (''lnbc1'', None)
   \<and> rpcs (snd (GenerateInvoice 0 ''api-call'' (sim_state grpc_client (sim_node_with True False))))
       = [AddInvoiceCall [(''macaroon'', ''0201036C6E64'')]
           \<lparr>Memo = ''api-call'', Value = 0, Settled = False\<rparr>]
   \<and> invoices (node (snd (GenerateInvoice 0 ''api-call''
         (sim_state grpc_client (sim_node_with True False)))))
       = [(zero_secret_hash, \<lparr>Memo = ''api-call'', Value = 100, Settled = False\<rparr>),
          ([0x01], \<lparr>Memo = ''api-call'', Value = 0, Settled = False\<rparr>)]"
  by (simp add: GenerateInvoice_unfolded Let_def sim_defs)

text \<open>
  C4, as amended: for an amount of zero or less, as for any other, \<open>GenerateInvoice\<close>
  checks nothing itself. It sends one \<open>AddInvoice\<close> call carrying the amount and the
  memo as given, and its result is the remote's: the payment request and nil, or the
  empty string and the remote's error.
\<close>

theorem GenerateInvoice_forwards_nonpositive_amount:
  assumes "sint amount \<le> 0"
  shows "rpcs (snd (GenerateInvoice amount memo s)) =
           rpcs s @ [AddInvoiceCall (ctx (self s)) \<lparr>Memo = memo, Value = amount, Settled = False\<rparr>]
       \<and> (case fst (AddInvoice (lndClient (self s)) (ctx (self s))
                   \<lparr>Memo = memo, Value = amount, Settled = False\<rparr> (node s)) of
             Inl err \<Rightarrow> fst (GenerateInvoice amount memo s) = ('''', Some err)
           | Inr res \<Rightarrow> fst (GenerateInvoice amount memo s) = (PaymentRequest res, None))"
  by (simp add: GenerateInvoice_unfolded Let_def split: prod.splits sum.splits)

theorem GenerateInvoice_forwards_nonpositive_amount_witness:
  "sint (- 1 :: int64) \<le> 0
   \<and> rpcs (snd (GenerateInvoice (- 1) ''api-call'' (sim_state grpc_client (sim_node_with True False))))
       = [AddInvoiceCall [(''macaroon'', ''0201036C6E64'')]
           \<lparr>Memo = ''api-call'', Value = - 1, Settled = False\<rparr>]
   \<and> fst (GenerateInvoice (- 1) ''api-call'' (sim_state grpc_client (sim_node_with True False)))
       = (''lnbc1'', None)
   \<and> fst (GenerateInvoice (- 1) ''api-call'' (sim_state grpc_client (sim_node_with False False)))
       = ('''', Some (StatusError (Status 14 ''transport is closing'')))"
proof -
  have neg: "sint (- 1 :: int64) \<le> 0" by simp
  show ?thesis
    using neg
      GenerateInvoice_forwards_nonpositive_amount
        [OF neg, of "''api-call''" "sim_state grpc_client (sim_node_with True False)"]
      GenerateInvoice_forwards_nonpositive_amount
        [OF neg, of "''api-call''" "sim_state grpc_client (sim_node_with False False)"]
    by (simp add: sim_defs)
qed

text \<open>
  C5, as claimed: \<open>CheckInvoice\<close> tells "no charge for this hash" from "node
  unreachable" by two error kinds. It does not: with a client that reports both by the
  same status, a node that is up and has no invoice and a node that is down give the
  same result.
\<close>

theorem CheckInvoice_same_error_for_both_failures_counterexample:
  "map_of (invoices \<lparr>reachable = True, invoices = [], upcoming = []\<rparr>) (sha256_Sum256 [0, 0, 0]) = None
   \<and> \<not> reachable (sim_node_with False False)
   \<and> fst (CheckInvoice ''AAAA''
        (sim_state (sim_client (StatusError (Status 2 ''rpc error''))
                      (StatusError (Status 2 ''rpc error'')))
           \<lparr>reachable = True, invoices = [], upcoming = []\<rparr>))
     = (False, Some (StatusError (Status 2 ''rpc error'')))
   \<and> fst (CheckInvoice ''AAAA''
        (sim_state (sim_client (StatusError (Status 2 ''rpc error''))
                      (StatusError (Status 2 ''rpc error'')))
           (sim_node_with False False)))
     = (False, Some (StatusError (Status 2 ''rpc error'')))"
  by (simp add: CheckInvoice_decoded [OF decode_AAAA] Let_def sim_defs)

text \<open>
  C5, as amended: when the lookup fails, \<open>CheckInvoice\<close> returns \<open>false\<close> and the
  client's error as it is, adding no classification of its own. Two failed lookups
  therefore give different results exactly when the client reported different errors.
\<close>

theorem CheckInvoice_returns_lookup_error_unchanged:
  assumes "base64_DecodeString preimage = Inr decoded"
    and "LookupInvoice (lndClient (self s)) (ctx (self s))
           \<lparr>RHashStr = hex_EncodeToString (sha256_Sum256 decoded), RHash = sha256_Sum256 decoded\<rparr>
           (node s) = (Inl e, n)"
    and "LookupInvoice (lndClient (self s')) (ctx (self s'))
           \<lparr>RHashStr = hex_EncodeToString (sha256_Sum256 decoded), RHash = sha256_Sum256 decoded\<rparr>
           (node s') = (Inl e', n')"
  shows "fst (CheckInvoice preimage s) = (False, Some e)
       \<and> fst (CheckInvoice preimage s') = (False, Some e')
       \<and> (fst (CheckInvoice preimage s) = fst (CheckInvoice preimage s') \<longleftrightarrow> e = e')"
  using assms by (simp add: CheckInvoice_decoded Let_def)

theorem CheckInvoice_returns_lookup_error_unchanged_witness:
  "base64_DecodeString ''AAAA'' = Inr [0, 0, 0]
   \<and> fst (CheckInvoice ''AAAA'' (sim_state grpc_client \<lparr>reachable = True, invoices = [], upcoming = []\<rparr>))
       = (False, Some (StatusError (Status 2 ''unable to locate invoice'')))
   \<and> fst (CheckInvoice ''AAAA'' (sim_state grpc_client (sim_node_with False False)))
       = (False, Some (StatusError (Status 14 ''transport is closing'')))
   \<and> fst (CheckInvoice ''AAAA'' (sim_state grpc_client \<lparr>reachable = True, invoices = [], upcoming = []\<rparr>))
       \<noteq> fst (CheckInvoice ''AAAA'' (sim_state grpc_client (sim_node_with False False)))"
proof -
  let ?ph = "\<lparr>RHashStr = hex_EncodeToString (sha256_Sum256 [0, 0, 0]), RHash = sha256_Sum256 [0, 0, 0]\<rparr>"
  let ?A = "sim_state grpc_client \<lparr>reachable = True, invoices = [], upcoming = []\<rparr>"
  let ?B = "sim_state grpc_client (sim_node_with False False)"
  have a: "LookupInvoice (lndClient (self ?A)) (ctx (self ?A)) ?ph (node ?A)
             = (Inl (StatusError (Status 2 ''unable to locate invoice'')), node ?A)"
    by (simp add: sim_defs)
  have b: "LookupInvoice (lndClient (self ?B)) (ctx (self ?B)) ?ph (node ?B)
             = (Inl (StatusError (Status 14 ''transport is closing'')), node ?B)"
    by (simp add: sim_defs)
  show ?thesis
    using CheckInvoice_returns_lookup_error_unchanged [OF decode_AAAA a b] decode_AAAA
    by simp
qed

text \<open>
  C6: in the decision procedure, a request whose proof has a replay key that is already
  marked as used is rejected as AlreadyUsed, and the only capability contacted for it is
  the storage, once: the verifier is not called and keeps its state.
\<close>

theorem authorize_replay_check_precedes_settlement_check:
  assumes "derive_key token = Some key"
    and "WasUsed S key (store w) = Inr True"
  shows "fst (authorize V S amount memo (Some token) w) = Rejected AlreadyUsed
       \<and> contacts (snd (authorize V S amount memo (Some token) w)) = contacts w @ [WasUsedCall key]
       \<and> (\<forall>p. IsSettledCall p \<notin>
             set (drop (length (contacts w)) (contacts (snd (authorize V S amount memo (Some token) w)))))
       \<and> verifier (snd (authorize V S amount memo (Some token) w)) = verifier w
       \<and> store (snd (authorize V S amount memo (Some token) w)) = store w"
  using assms by (simp add: authorize_def Let_def)

theorem authorize_replay_check_precedes_settlement_check_witness:
  "derive_key ''AAAA'' = Some zero_secret_hash
   \<and> WasUsed list_storage zero_secret_hash
        (store \<lparr>verifier = True, store = [zero_secret_hash], contacts = []\<rparr>) = Inr True
   \<and> fst (authorize (one_charge_verifier ''AAAA'') list_storage 100 ''api-call'' (Some ''AAAA'')
        \<lparr>verifier = True, store = [zero_secret_hash], contacts = []\<rparr>) = Rejected AlreadyUsed
   \<and> contacts (snd (authorize (one_charge_verifier ''AAAA'') list_storage 100 ''api-call'' (Some ''AAAA'')
        \<lparr>verifier = True, store = [zero_secret_hash], contacts = []\<rparr>))
      = [WasUsedCall zero_secret_hash]"
proof -
  have k: "derive_key ''AAAA'' = Some zero_secret_hash"
    by (simp add: derive_key_def decode_AAAA sha256_of_three_zero_bytes)
  have u: "WasUsed list_storage zero_secret_hash
        (store \<lparr>verifier = True, store = [zero_secret_hash], contacts = []\<rparr>) = Inr True"
    by (simp add: list_storage_def)
  show ?thesis
    using k u authorize_replay_check_precedes_settlement_check [OF k u,
        of "one_charge_verifier ''AAAA''" 100 "''api-call''"]
    by simp
qed

text \<open>
  C7, as claimed: every call creates a new charge on the remote system, and two
  successful calls return the payment requests of two distinct new charges. Neither is
  in the code's hands. On a node that is down, the call creates nothing and returns the
  error. With a client that answers every request alike, two successful calls in a row
  return the same payment request and the node holds no invoice more than before.
\<close>

theorem GenerateInvoice_same_request_twice_counterexample:
  "fst (GenerateInvoice 100 ''api-call'' (sim_state grpc_client (sim_node_with False False)))
     = ('''', Some (StatusError (Status 14 ''transport is closing'')))
   \<and> node (snd (GenerateInvoice 100 ''api-call'' (sim_state grpc_client (sim_node_with False False))))
     = sim_node_with False False
   \<and> fst (GenerateInvoice 100 ''api-call'' (sim_state stale_client (sim_node_with True False)))
     = (''lnbc1'', None)
   \<and> fst (GenerateInvoice 100 ''api-call''
        (snd (GenerateInvoice 100 ''api-call'' (sim_state stale_client (sim_node_with True False)))))
     = (''lnbc1'', None)
   \<and> node (snd (GenerateInvoice 100 ''api-call''
        (snd (GenerateInvoice 100 ''api-call'' (sim_state stale_client (sim_node_with True False))))))
     = sim_node_with True False"
  by (simp add: GenerateInvoice_unfolded Let_def sim_defs)

text \<open>
  C7, as amended: every call of \<open>GenerateInvoice\<close> sends one new \<open>AddInvoice\<close> request
  carrying the amount and the memo, and keeps nothing from one call to the next: a
  successful call returns the payment request of the response to that very request, and
  of two successful calls in a row the second is answered by the node as the first left
  it. Whether a charge is created, and whether two responses differ, is the remote's
  answer.
\<close>

theorem GenerateInvoice_sends_a_new_request_each_call:
  "rpcs (snd (GenerateInvoice amount memo s)) =
     rpcs s @ [AddInvoiceCall (ctx (self s)) \<lparr>Memo = memo, Value = amount, Settled = False\<rparr>]
   \<and> (GenerateInvoice amount memo s = ((payreq, None), s1)
        \<and> GenerateInvoice amount' memo' s1 = ((payreq', None), s2)
      \<longrightarrow> (\<exists>res res'.
            AddInvoice (lndClient (self s)) (ctx (self s))
              \<lparr>Memo = memo, Value = amount, Settled = False\<rparr> (node s) = (Inr res, node s1)
          \<and> AddInvoice (lndClient (self s)) (ctx (self s))
              \<lparr>Memo = memo', Value = amount', Settled = False\<rparr> (node s1) = (Inr res', node s2)
          \<and> payreq = PaymentRequest res \<and> payreq' = PaymentRequest res'
          \<and> rpcs s2 = rpcs s @
              [AddInvoiceCall (ctx (self s)) \<lparr>Memo = memo, Value = amount, Settled = False\<rparr>,
               AddInvoiceCall (ctx (self s)) \<lparr>Memo = memo', Value = amount', Settled = False\<rparr>]))"
proof -
  have one: "rpcs (snd (GenerateInvoice amount memo s)) =
     rpcs s @ [AddInvoiceCall (ctx (self s)) \<lparr>Memo = memo, Value = amount, Settled = False\<rparr>]"
    by (simp add: GenerateInvoice_unfolded Let_def split: prod.splits sum.splits)
  have step: "\<exists>res. AddInvoice (lndClient (self t)) (ctx (self t))
                \<lparr>Memo = m, Value = a, Settled = False\<rparr> (node t) = (Inr res, node t')
              \<and> p = PaymentRequest res \<and> self t' = self t
              \<and> rpcs t' = rpcs t @ [AddInvoiceCall (ctx (self t)) \<lparr>Memo = m, Value = a, Settled = False\<rparr>]"
    if "GenerateInvoice a m t = ((p, None), t')" for a m p and t t' :: "'a state"
    using that
    by (auto simp: GenerateInvoice_unfolded Let_def split: prod.splits sum.splits)
  show ?thesis
  proof (intro conjI impI)
    show "rpcs (snd (GenerateInvoice amount memo s)) =
     rpcs s @ [AddInvoiceCall (ctx (self s)) \<lparr>Memo = memo, Value = amount, Settled = False\<rparr>]"
      by (rule one)
  next
    assume both: "GenerateInvoice amount memo s = ((payreq, None), s1)
        \<and> GenerateInvoice amount' memo' s1 = ((payreq', None), s2)"
    from both step [of amount memo s payreq s1] obtain res where
      r1: "AddInvoice (lndClient (self s)) (ctx (self s))
              \<lparr>Memo = memo, Value = amount, Settled = False\<rparr> (node s) = (Inr res, node s1)"
      and p1: "payreq = PaymentRequest res" and c1: "self s1 = self s"
      and t1: "rpcs s1 = rpcs s @ [AddInvoiceCall (ctx (self s)) \<lparr>Memo = memo, Value = amount, Settled = False\<rparr>]"
      by blast
    from both step [of amount' memo' s1 payreq' s2] obtain res' where
      r2: "AddInvoice (lndClient (self s1)) (ctx (self s1))
              \<lparr>Memo = memo', Value = amount', Settled = False\<rparr> (node s1) = (Inr res', node s2)"
      and p2: "payreq' = PaymentRequest res'"
      and t2: "rpcs s2 = rpcs s1 @ [AddInvoiceCall (ctx (self s1)) \<lparr>Memo = memo', Value = amount', Settled = False\<rparr>]"
      by blast
    show "\<exists>res res'.
            AddInvoice (lndClient (self s)) (ctx (self s))
              \<lparr>Memo = memo, Value = amount, Settled = False\<rparr> (node s) = (Inr res, node s1)
          \<and> AddInvoice (lndClient (self s)) (ctx (self s))
              \<lparr>Memo = memo', Value = amount', Settled = False\<rparr> (node s1) = (Inr res', node s2)
          \<and> payreq = PaymentRequest res \<and> payreq' = PaymentRequest res'
          \<and> rpcs s2 = rpcs s @
              [AddInvoiceCall (ctx (self s)) \<lparr>Memo = memo, Value = amount, Settled = False\<rparr>,
               AddInvoiceCall (ctx (self s)) \<lparr>Memo = memo', Value = amount', Settled = False\<rparr>]"
      using r1 r2 p1 p2 t1 t2 c1 by auto
  qed
qed

theorem GenerateInvoice_sends_a_new_request_each_call_witness:
  "GenerateInvoice 100 ''api-call'' (sim_state grpc_client (sim_node_with True False))
     = ((''lnbc1'', None),
        snd (GenerateInvoice 100 ''api-call'' (sim_state grpc_client (sim_node_with True False))))
   \<and> GenerateInvoice 100 ''api-call''
       (snd (GenerateInvoice 100 ''api-call'' (sim_state grpc_client (sim_node_with True False))))
     = ((''lnbc2'', None),
        snd (GenerateInvoice 100 ''api-call''
          (snd (GenerateInvoice 100 ''api-call'' (sim_state grpc_client (sim_node_with True False))))))
   \<and> rpcs (snd (GenerateInvoice 100 ''api-call''
          (snd (GenerateInvoice 100 ''api-call'' (sim_state grpc_client (sim_node_with True False))))))
     = [AddInvoiceCall [(''macaroon'', ''0201036C6E64'')] \<lparr>Memo = ''api-call'', Value = 100, Settled = False\<rparr>,
        AddInvoiceCall [(''macaroon'', ''0201036C6E64'')] \<lparr>Memo = ''api-call'', Value = 100, Settled = False\<rparr>]
   \<and> map fst (invoices (node (snd (GenerateInvoice 100 ''api-call''
          (snd (GenerateInvoice 100 ''api-call'' (sim_state grpc_client (sim_node_with True False))))))))
     = [zero_secret_hash, [0x01], [0x02]]"
proof -
  let ?s = "sim_state grpc_client (sim_node_with True False)"
  let ?s1 = "snd (GenerateInvoice 100 ''api-call'' ?s)"
  let ?s2 = "snd (GenerateInvoice 100 ''api-call'' ?s1)"
  have first: "GenerateInvoice 100 ''api-call'' ?s = ((''lnbc1'', None), ?s1)"
    by (simp add: GenerateInvoice_unfolded Let_def sim_defs)
  have second: "GenerateInvoice 100 ''api-call'' ?s1 = ((''lnbc2'', None), ?s2)"
    by (simp add: GenerateInvoice_unfolded Let_def sim_defs)
  have charges: "map fst (invoices (node ?s2)) = [zero_secret_hash, [0x01], [0x02]]"
    by (simp add: GenerateInvoice_unfolded Let_def sim_defs)
  have "rpcs ?s2 = rpcs ?s @
      [AddInvoiceCall (ctx (self ?s)) \<lparr>Memo = ''api-call'', Value = 100, Settled = False\<rparr>,
       AddInvoiceCall (ctx (self ?s)) \<lparr>Memo = ''api-call'', Value = 100, Settled = False\<rparr>]"
    using GenerateInvoice_sends_a_new_request_each_call
      [of 100 "''api-call''" ?s "''lnbc1''" ?s1 100 "''api-call''" "''lnbc2''" ?s2] first second
    by blast
  then have "rpcs ?s2 =
      [AddInvoiceCall [(''macaroon'', ''0201036C6E64'')] \<lparr>Memo = ''api-call'', Value = 100, Settled = False\<rparr>,
       AddInvoiceCall [(''macaroon'', ''0201036C6E64'')] \<lparr>Memo = ''api-call'', Value = 100, Settled = False\<rparr>]"
    by (simp add: sim_state_def)
  then show ?thesis using first second charges by blast
qed

text \<open>
  C8: the two methods leave the client struct as it was (its fields \<open>lndClient\<close>,
  \<open>ctx\<close> and \<open>conn\<close>), and the amount, the memo and the hash of the preimage reach
  the remote call as the caller gave them.
\<close>

theorem methods_keep_client_and_arguments:
  "self (snd (GenerateInvoice amount memo s)) = self s
   \<and> self (snd (CheckInvoice preimage s)) = self s
   \<and> last (rpcs (snd (GenerateInvoice amount memo s)))
       = AddInvoiceCall (ctx (self s)) \<lparr>Memo = memo, Value = amount, Settled = False\<rparr>
   \<and> (\<forall>decoded. base64_DecodeString preimage = Inr decoded \<longrightarrow>
        last (rpcs (snd (CheckInvoice preimage s)))
          = LookupInvoiceCall (ctx (self s))
              \<lparr>RHashStr = hex_EncodeToString (sha256_Sum256 decoded), RHash = sha256_Sum256 decoded\<rparr>)"
proof -
  have g: "self (snd (GenerateInvoice amount memo s)) = self s"
    by (simp add: GenerateInvoice_unfolded Let_def split: prod.splits sum.splits)
  have c: "self (snd (CheckInvoice preimage s)) = self s"
  proof (cases "base64_DecodeString preimage")
    case (Inl err)
    then show ?thesis by (simp add: CheckInvoice_def)
  next
    case (Inr decoded)
    then show ?thesis
      by (simp add: CheckInvoice_decoded Let_def split: prod.splits sum.splits)
  qed
  have a: "last (rpcs (snd (GenerateInvoice amount memo s)))
       = AddInvoiceCall (ctx (self s)) \<lparr>Memo = memo, Value = amount, Settled = False\<rparr>"
    by (simp add: GenerateInvoice_unfolded Let_def split: prod.splits sum.splits)
  have p: "last (rpcs (snd (CheckInvoice preimage s)))
          = LookupInvoiceCall (ctx (self s))
              \<lparr>RHashStr = hex_EncodeToString (sha256_Sum256 decoded), RHash = sha256_Sum256 decoded\<rparr>"
    if "base64_DecodeString preimage = Inr decoded" for decoded
    using that by (simp add: CheckInvoice_decoded Let_def split: prod.splits sum.splits)
  show ?thesis using g c a p by blast
qed

theorem methods_keep_client_and_arguments_witness:
  "self (snd (GenerateInvoice 100 ''api-call'' (sim_state grpc_client (sim_node_with True False))))
     = \<lparr>lndClient = grpc_client, ctx = [(''macaroon'', ''0201036C6E64'')], conn = 1\<rparr>
   \<and> self (snd (CheckInvoice ''AAAA'' (sim_state grpc_client (sim_node_with True False))))
     = \<lparr>lndClient = grpc_client, ctx = [(''macaroon'', ''0201036C6E64'')], conn = 1\<rparr>
   \<and> last (rpcs (snd (GenerateInvoice 100 ''api-call'' (sim_state grpc_client (sim_node_with True False)))))
     = AddInvoiceCall [(''macaroon'', ''0201036C6E64'')] \<lparr>Memo = ''api-call'', Value = 100, Settled = False\<rparr>
   \<and> last (rpcs (snd (CheckInvoice ''AAAA'' (sim_state grpc_client (sim_node_with True False)))))
     = LookupInvoiceCall [(''macaroon'', ''0201036C6E64'')]
         \<lparr>RHashStr = ''709e80c88487a2411e1ee4dfb9f22a861492d20c4765150c0c794abd70f8147c'',
          RHash = zero_secret_hash\<rparr>"
  using methods_keep_client_and_arguments
    [of 100 "''api-call''" "sim_state grpc_client (sim_node_with True False)" "''AAAA''"]
    decode_AAAA
  by (simp add: sim_state_def sha256_of_three_zero_bytes hex_zero_secret_hash)

text \<open>
  C10: when the preimage does not decode, \<open>CheckInvoice\<close> returns \<open>false\<close> and the
  decoder's error at once: no call is made on the client and the remote node is as
  before.
\<close>

theorem CheckInvoice_malformed_preimage_makes_no_call:
  assumes "base64_DecodeString preimage = Inl err"
  shows "fst (CheckInvoice preimage s) = (False, Some err)
       \<and> rpcs (snd (CheckInvoice preimage s)) = rpcs s
       \<and> node (snd (CheckInvoice preimage s)) = node s"
  using assms by (simp add: CheckInvoice_def)

theorem CheckInvoice_malformed_preimage_makes_no_call_witness:
  "base64_DecodeString ''!!!!'' = Inl (CorruptInputError 0)
   \<and> fst (CheckInvoice ''!!!!'' (sim_state grpc_client (sim_node_with True False)))
       = (False, Some (CorruptInputError 0))
   \<and> rpcs (snd (CheckInvoice ''!!!!'' (sim_state grpc_client (sim_node_with True False)))) = []
   \<and> node (snd (CheckInvoice ''!!!!'' (sim_state grpc_client (sim_node_with True False))))
       = sim_node_with True False"
  using CheckInvoice_malformed_preimage_makes_no_call
    [OF decode_bangs, of "sim_state grpc_client (sim_node_with True False)"] decode_bangs
  by (simp add: sim_state_def)

text \<open>
  C9: \<open>assignDefaultValues\<close> replaces exactly the empty fields of the options by the
  defaults \<open>localhost:10009\<close>, \<open>tls.cert\<close> and \<open>invoice.macaroon\<close>, leaves every
  non-empty field as it is, and is idempotent.
\<close>

theorem assignDefaultValues_fills_empty_fields:
  "Address (assignDefaultValues opts) =
     (if Address opts = '''' then ''localhost:10009'' else Address opts)
   \<and> CertFile (assignDefaultValues opts) =
     (if CertFile opts = '''' then ''tls.cert'' else CertFile opts)
   \<and> MacaroonFile (assignDefaultValues opts) =
     (if MacaroonFile opts = '''' then ''invoice.macaroon'' else MacaroonFile opts)
   \<and> assignDefaultValues (assignDefaultValues opts) = assignDefaultValues opts"
  by (simp add: assignDefaultValues_def DefaultLNDoptions_def Let_def)

theorem assignDefaultValues_fills_empty_fields_witness:
  "assignDefaultValues \<lparr>Address = '''', CertFile = ''/etc/lnd/tls.cert'', MacaroonFile = ''''\<rparr>
     = \<lparr>Address = ''localhost:10009'', CertFile = ''/etc/lnd/tls.cert'',
        MacaroonFile = ''invoice.macaroon''\<rparr>
   \<and> assignDefaultValues (assignDefaultValues
        \<lparr>Address = '''', CertFile = ''/etc/lnd/tls.cert'', MacaroonFile = ''''\<rparr>)
     = \<lparr>Address = ''localhost:10009'', CertFile = ''/etc/lnd/tls.cert'',
        MacaroonFile = ''invoice.macaroon''\<rparr>"
  using assignDefaultValues_fills_empty_fields
    [of "\<lparr>Address = '''', CertFile = ''/etc/lnd/tls.cert'', MacaroonFile = ''''\<rparr>"]
  by (simp add: assignDefaultValues_def DefaultLNDoptions_def Let_def)

end
